theory Spec2Isabelle
  imports Main "HOL-Library.Word"
begin

section \<open>The checksum combinator of \<^verbatim>\<open>util/CheckSums.h\<close>\<close>

text \<open>
  The accumulator is a \<^verbatim>\<open>uint32_t\<close>: addition wraps around at \<open>2 ^ 32\<close> and
  \<^verbatim>\<open>%\<close> is the unsigned remainder.
\<close>

type_synonym uint32_t = "32 word"

definition CHECKSUM_MODULUS :: uint32_t where
  "CHECKSUM_MODULUS = 10000000"

subsection \<open>Integral arguments\<close>

text \<open>
  The two integral overloads are templates over every type \<^verbatim>\<open>T\<close> with
  \<^verbatim>\<open>std::is_signed_v<T>\<close>, respectively \<^verbatim>\<open>std::is_unsigned_v<T>\<close>. The
  model has one constructor for each width of the fixed-width integer types, with
  \<^verbatim>\<open>int\<close> taken as 32 bits wide and \<^verbatim>\<open>long long\<close> as 64 bits wide;
  \<^verbatim>\<open>bool\<close> is an unsigned type for \<^verbatim>\<open>std::is_unsigned_v\<close>.
\<close>

datatype signed_int =
    Int8 "8 word"
  | Int16 "16 word"
  | Int32 "32 word"
  | Int64 "64 word"

datatype unsigned_int =
    UBool bool
  | UInt8 "8 word"
  | UInt16 "16 word"
  | UInt32 "32 word"
  | UInt64 "64 word"

text \<open>The mathematical value of an argument, and the least and greatest value of its type.\<close>

fun sval :: "signed_int \<Rightarrow> int" where
  "sval (Int8 t) = sint t"
| "sval (Int16 t) = sint t"
| "sval (Int32 t) = sint t"
| "sval (Int64 t) = sint t"

fun type_min :: "signed_int \<Rightarrow> int" where
  "type_min (Int8 t) = - (2 ^ 7)"
| "type_min (Int16 t) = - (2 ^ 15)"
| "type_min (Int32 t) = - (2 ^ 31)"
| "type_min (Int64 t) = - (2 ^ 63)"

fun type_max :: "signed_int \<Rightarrow> int" where
  "type_max (Int8 t) = 2 ^ 7 - 1"
| "type_max (Int16 t) = 2 ^ 15 - 1"
| "type_max (Int32 t) = 2 ^ 31 - 1"
| "type_max (Int64 t) = 2 ^ 63 - 1"

fun uval :: "unsigned_int \<Rightarrow> nat" where
  "uval (UBool b) = of_bool b"
| "uval (UInt8 t) = unat t"
| "uval (UInt16 t) = unat t"
| "uval (UInt32 t) = unat t"
| "uval (UInt64 t) = unat t"

text \<open>
  \<^verbatim>\<open>std::abs\<close> on \<^verbatim>\<open>int\<close> and on \<^verbatim>\<open>long long\<close>. The absolute value of the
  least value of the operand type is not a value of that type, and the call has no
  defined result there: \<open>None\<close>.
\<close>

definition std_abs :: "'a::len word \<Rightarrow> 'a word option" where
  "std_abs t =
     (if sint t = - (2 ^ (LENGTH('a) - 1)) then None
      else Some (if sint t < 0 then - t else t))"

text \<open>
  \<^verbatim>\<open>sum += static_cast<uint32_t>(std::abs(t)); sum %= CHECKSUM_MODULUS;\<close>
  An operand narrower than \<^verbatim>\<open>int\<close> is promoted to \<^verbatim>\<open>int\<close> (sign extension,
  \<open>scast\<close>) before \<^verbatim>\<open>std::abs(int)\<close> is applied; the cast of a
  \<^verbatim>\<open>long long\<close> result to \<^verbatim>\<open>uint32_t\<close> keeps the low 32 bits (\<open>ucast\<close>).
\<close>

fun CheckSumCombine_signed :: "uint32_t \<Rightarrow> signed_int \<Rightarrow> uint32_t option" where
  "CheckSumCombine_signed sum0 (Int8 t) =
     map_option (\<lambda>a. (sum0 + a) mod CHECKSUM_MODULUS) (std_abs (scast t :: 32 word))"
| "CheckSumCombine_signed sum0 (Int16 t) =
     map_option (\<lambda>a. (sum0 + a) mod CHECKSUM_MODULUS) (std_abs (scast t :: 32 word))"
| "CheckSumCombine_signed sum0 (Int32 t) =
     map_option (\<lambda>a. (sum0 + a) mod CHECKSUM_MODULUS) (std_abs t)"
| "CheckSumCombine_signed sum0 (Int64 t) =
     map_option (\<lambda>a. (sum0 + ucast a) mod CHECKSUM_MODULUS) (std_abs t)"

text \<open>\<^verbatim>\<open>static_cast<uint32_t>(t)\<close> for an unsigned \<^verbatim>\<open>t\<close>.\<close>

fun static_cast_uint32_t :: "unsigned_int \<Rightarrow> uint32_t" where
  "static_cast_uint32_t (UBool b) = of_bool b"
| "static_cast_uint32_t (UInt8 t) = ucast t"
| "static_cast_uint32_t (UInt16 t) = ucast t"
| "static_cast_uint32_t (UInt32 t) = t"
| "static_cast_uint32_t (UInt64 t) = ucast t"

text \<open>\<^verbatim>\<open>sum += static_cast<uint32_t>(t); sum %= CHECKSUM_MODULUS;\<close>\<close>

definition CheckSumCombine_unsigned :: "uint32_t \<Rightarrow> unsigned_int \<Rightarrow> uint32_t" where
  "CheckSumCombine_unsigned sum0 t = (sum0 + static_cast_uint32_t t) mod CHECKSUM_MODULUS"

subsection \<open>Arguments of every overload\<close>

text \<open>
  Overload resolution picks the overload from the static type of the argument; in the
  model the constructor of the argument does.
  \<^item> \<open>Signed\<close>, \<open>Unsigned\<close>: the integral overloads.
  \<^item> \<open>Composite c\<close>: an object of a class with a \<^verbatim>\<open>GetCheckSum()\<close> member, carried
    as the \<^verbatim>\<open>uint32_t\<close> that \<^verbatim>\<open>GetCheckSum()\<close> returns for it.
  \<^item> \<open>Enum t\<close>: an enumerator, carried as \<^verbatim>\<open>static_cast<int>(t)\<close>.
  \<^item> \<open>RawPtr\<close>, \<open>SharedPtr\<close>, \<open>UniquePtr\<close>: \<^verbatim>\<open>const T*\<close>,
    \<^verbatim>\<open>std::shared_ptr<T>\<close>, \<^verbatim>\<open>std::unique_ptr<T>\<close>; \<open>None\<close> is the null pointer.
  \<^item> \<open>StdPair\<close>: \<^verbatim>\<open>std::pair<C, D>\<close>.
  \<^item> \<open>Container c\<close>: a class with \<^verbatim>\<open>begin()\<close> and \<^verbatim>\<open>end()\<close>, carried as the
    list of its elements in iteration order.
  \<^item> \<open>Extern f\<close>: a \<^verbatim>\<open>double\<close>, \<^verbatim>\<open>float\<close>, \<^verbatim>\<open>const char*\<close> or
    \<^verbatim>\<open>std::string\<close>. Their overloads are declared in the header and defined
    elsewhere; the argument is carried as the update \<open>f\<close> of the accumulator that its
    overload performs.
\<close>

datatype val =
    Signed signed_int
  | Unsigned unsigned_int
  | Composite uint32_t
  | Enum "32 word"
  | RawPtr "val option"
  | SharedPtr "val option"
  | UniquePtr "val option"
  | StdPair val val
  | Container "val list"
  | Extern "uint32_t \<Rightarrow> uint32_t"

text \<open>
  \<open>CheckSumCombine sum0 v\<close> is the value of \<^verbatim>\<open>sum\<close> after
  \<^verbatim>\<open>CheckSumCombine(sum, v)\<close>, or \<open>None\<close> when the call evaluates an expression
  without a defined result: \<^verbatim>\<open>std::abs\<close> of a least value, or an overflow of
  \<^verbatim>\<open>static_cast<int>(t) + 10\<close>. \<open>CheckSumCombine_range\<close> is the loop
  \<^verbatim>\<open>for (const auto& t : c) CheckSumCombine(sum, t);\<close> of the container overload.
\<close>

fun CheckSumCombine :: "uint32_t \<Rightarrow> val \<Rightarrow> uint32_t option"
  and CheckSumCombine_range :: "uint32_t \<Rightarrow> val list \<Rightarrow> uint32_t option" where
  "CheckSumCombine sum0 (Signed t) = CheckSumCombine_signed sum0 t"
| "CheckSumCombine sum0 (Unsigned t) = Some (CheckSumCombine_unsigned sum0 t)"
| "CheckSumCombine sum0 (Composite c) = Some ((sum0 + c) mod CHECKSUM_MODULUS)"
| "CheckSumCombine sum0 (Enum t) =
     (if sint t + 10 < 2 ^ 31 then CheckSumCombine_signed sum0 (Int32 (t + 10)) else None)"
| "CheckSumCombine sum0 (RawPtr None) = Some sum0"
| "CheckSumCombine sum0 (RawPtr (Some v)) = CheckSumCombine sum0 v"
| "CheckSumCombine sum0 (SharedPtr None) = Some sum0"
| "CheckSumCombine sum0 (SharedPtr (Some v)) = CheckSumCombine sum0 v"
| "CheckSumCombine sum0 (UniquePtr None) = Some sum0"
| "CheckSumCombine sum0 (UniquePtr (Some v)) = CheckSumCombine sum0 v"
| "CheckSumCombine sum0 (StdPair first second) =
     (case CheckSumCombine sum0 first of
        None \<Rightarrow> None
      | Some sum1 \<Rightarrow> CheckSumCombine sum1 second)"
| "CheckSumCombine sum0 (Container c) =
     (case CheckSumCombine_range sum0 c of
        None \<Rightarrow> None
      | Some sum1 \<Rightarrow> Some ((sum1 + of_nat (length c)) mod CHECKSUM_MODULUS))"
| "CheckSumCombine sum0 (Extern f) = Some (f sum0)"
| "CheckSumCombine_range sum0 [] = Some sum0"
| "CheckSumCombine_range sum0 (t # ts) =
     (case CheckSumCombine sum0 t of
        None \<Rightarrow> None
      | Some sum1 \<Rightarrow> CheckSumCombine_range sum1 ts)"

subsection \<open>Arguments on which every step has a defined result\<close>

text \<open>
  \<open>abs_representable t\<close>: the operand that \<^verbatim>\<open>std::abs\<close> receives for \<open>t\<close> (after
  integral promotion) is not the least value of its type.
\<close>

fun abs_representable :: "signed_int \<Rightarrow> bool" where
  "abs_representable (Int8 t) = True"
| "abs_representable (Int16 t) = True"
| "abs_representable (Int32 t) = (sint t \<noteq> - (2 ^ 31))"
| "abs_representable (Int64 t) = (sint t \<noteq> - (2 ^ 63))"

text \<open>
  \<open>no_overflow v\<close>: no signed integer reached by the combinator inside \<open>v\<close> is the
  least value of \<^verbatim>\<open>int\<close> or \<^verbatim>\<open>long long\<close>, and adding 10 to the ordinal of an
  enumerator does not leave \<^verbatim>\<open>int\<close>.
\<close>

fun no_overflow :: "val \<Rightarrow> bool" where
  "no_overflow (Signed t) = abs_representable t"
| "no_overflow (Enum t) = (sint t + 10 < 2 ^ 31)"
| "no_overflow (RawPtr (Some v)) = no_overflow v"
| "no_overflow (SharedPtr (Some v)) = no_overflow v"
| "no_overflow (UniquePtr (Some v)) = no_overflow v"
| "no_overflow (StdPair first second) = (no_overflow first \<and> no_overflow second)"
| "no_overflow (Container c) = list_all no_overflow c"
| "no_overflow v = True"

text \<open>
  \<open>extern_reduced v\<close>: the overloads defined outside the header, where \<open>v\<close> has them
  called, map an accumulator below the modulus to one below the modulus.
\<close>

fun extern_reduced :: "val \<Rightarrow> bool" where
  "extern_reduced (Extern f) = (\<forall>s. s < CHECKSUM_MODULUS \<longrightarrow> f s < CHECKSUM_MODULUS)"
| "extern_reduced (RawPtr (Some v)) = extern_reduced v"
| "extern_reduced (SharedPtr (Some v)) = extern_reduced v"
| "extern_reduced (UniquePtr (Some v)) = extern_reduced v"
| "extern_reduced (StdPair first second) = (extern_reduced first \<and> extern_reduced second)"
| "extern_reduced (Container c) = list_all extern_reduced c"
| "extern_reduced v = True"

section \<open>The hull registry of \<^verbatim>\<open>universe/ShipHull.h\<close>\<close>

text \<open>
  The header declares \<^verbatim>\<open>ShipHull\<close> and \<^verbatim>\<open>ShipHullManager\<close>; the bodies of their
  member functions are outside the header. A hull is carried as its name and the value
  that \<^verbatim>\<open>ShipHull::GetCheckSum()\<close> returns for it.
\<close>

record ShipHull =
  m_name :: string
  hull_checksum :: uint32_t

text \<open>
  \<^verbatim>\<open>std::map<std::string, std::unique_ptr<ShipHull>, std::less<>>\<close>: the entries in
  iteration order, which is the order of the keys. An iterator is carried as the entries
  from its position to the end.
\<close>

type_synonym container_type = "(string \<times> ShipHull option) list"

type_synonym iterator = "(string \<times> ShipHull option) list"

text \<open>
  Modelled from the spec: \<^verbatim>\<open>Pending::Pending<container_type>\<close> (\<^verbatim>\<open>util/Pending.h\<close>
  is missing). The spec calls it a future-like handle that yields, exactly once, a
  completed keyed collection of records; it is carried as the collection it yields.
\<close>

type_synonym Pending = container_type

record ShipHullManager =
  m_pending_ship_hulls :: "Pending option"
  m_hulls :: container_type

text \<open>
  Modelled from the spec: \<^verbatim>\<open>ShipHullManager::SetShipHulls\<close>, whose body is missing.
  \<^verbatim>\<open>SetContent(pendingFuture)\<close> attaches the future, replacing any previously attached
  one; the content is left as it is.
\<close>

definition SetShipHulls :: "Pending \<Rightarrow> ShipHullManager \<Rightarrow> ShipHullManager" where
  "SetShipHulls pending_ship_hulls m = m\<lparr>m_pending_ship_hulls := Some pending_ship_hulls\<rparr>"

text \<open>
  Modelled from the spec: \<^verbatim>\<open>ShipHullManager::CheckPendingShipHulls\<close>, whose body is
  missing. If a pending future is attached, it is resolved, the resolved collection
  replaces the content and the pending marker is discarded; otherwise nothing changes.
\<close>

definition CheckPendingShipHulls :: "ShipHullManager \<Rightarrow> ShipHullManager" where
  "CheckPendingShipHulls m =
     (case m_pending_ship_hulls m of
        None \<Rightarrow> m
      | Some pending \<Rightarrow> m\<lparr>m_pending_ship_hulls := None, m_hulls := pending\<rparr>)"

text \<open>
  Modelled from the spec: the query operations of \<^verbatim>\<open>ShipHullManager\<close>, whose bodies
  are missing. Each resolves the pending state first; the members are
  \<^verbatim>\<open>mutable\<close>, so each query returns its answer together with the manager after it.
  \<^verbatim>\<open>GetShipHull\<close> returns a non-owning pointer, null when there is no such hull.
\<close>

definition GetShipHull :: "string \<Rightarrow> ShipHullManager \<Rightarrow> ShipHull option \<times> ShipHullManager" where
  "GetShipHull name m =
     (let m' = CheckPendingShipHulls m in
      (case map_of (m_hulls m') name of None \<Rightarrow> None | Some p \<Rightarrow> p, m'))"

definition begin_hulls :: "ShipHullManager \<Rightarrow> iterator \<times> ShipHullManager" where
  "begin_hulls m = (let m' = CheckPendingShipHulls m in (m_hulls m', m'))"

definition end_hulls :: "ShipHullManager \<Rightarrow> iterator \<times> ShipHullManager" where
  "end_hulls m = (let m' = CheckPendingShipHulls m in ([], m'))"

definition size_hulls :: "ShipHullManager \<Rightarrow> nat \<times> ShipHullManager" where
  "size_hulls m = (let m' = CheckPendingShipHulls m in (length (m_hulls m'), m'))"

text \<open>
  An entry of the map as an argument of the combinator: a \<^verbatim>\<open>std::pair\<close> of a
  \<^verbatim>\<open>std::string\<close> and a \<^verbatim>\<open>std::unique_ptr<ShipHull>\<close>, where \<^verbatim>\<open>ShipHull\<close> has
  \<^verbatim>\<open>GetCheckSum()\<close>. The overload for \<^verbatim>\<open>std::string\<close> is defined outside the
  header and is the parameter \<open>str\<close>.
\<close>

definition entry_val :: "(uint32_t \<Rightarrow> string \<Rightarrow> uint32_t) \<Rightarrow> string \<times> ShipHull option \<Rightarrow> val" where
  "entry_val str e =
     StdPair (Extern (\<lambda>sum0. str sum0 (fst e)))
             (UniquePtr (map_option (\<lambda>h. Composite (hull_checksum h)) (snd e)))"

text \<open>
  Modelled from the spec: \<^verbatim>\<open>ShipHullManager::GetCheckSum\<close>, whose body is missing.
  It resolves the pending state first, folds every entry through the combinator in
  iteration order, starting from 0, then folds in the entry count, a \<^verbatim>\<open>std::size_t\<close>.
\<close>

fun combine_entries ::
  "(uint32_t \<Rightarrow> string \<Rightarrow> uint32_t) \<Rightarrow> uint32_t \<Rightarrow> container_type \<Rightarrow> uint32_t option" where
  "combine_entries str retval [] = Some retval"
| "combine_entries str retval (e # es) =
     (case CheckSumCombine retval (entry_val str e) of
        None \<Rightarrow> None
      | Some retval' \<Rightarrow> combine_entries str retval' es)"

definition GetCheckSum ::
  "(uint32_t \<Rightarrow> string \<Rightarrow> uint32_t) \<Rightarrow> ShipHullManager \<Rightarrow> uint32_t option \<times> ShipHullManager" where
  "GetCheckSum str m =
     (let m' = CheckPendingShipHulls m in
      (case combine_entries str 0 (m_hulls m') of
         None \<Rightarrow> None
       | Some retval \<Rightarrow>
           CheckSumCombine retval (Unsigned (UInt64 (of_nat (length (m_hulls m'))))),
       m'))"

section \<open>Properties of the combinator\<close>

lemma CHECKSUM_MODULUS_pos: "0 < CHECKSUM_MODULUS"
  by (simp add: CHECKSUM_MODULUS_def)

lemma mod_CHECKSUM_MODULUS_less: "x mod CHECKSUM_MODULUS < CHECKSUM_MODULUS"
  using CHECKSUM_MODULUS_pos by (simp add: word_mod_less_divisor)

subsection \<open>\<^verbatim>\<open>std::abs\<close>, promotion and casts\<close>

lemma unat_mod_CHECKSUM_MODULUS: "unat (x mod CHECKSUM_MODULUS) = unat x mod 10000000"
  by (simp add: unat_mod_distrib CHECKSUM_MODULUS_def)

lemma std_abs_Some:
  "sint (t :: 'a::len word) \<noteq> - (2 ^ (LENGTH('a) - 1)) \<Longrightarrow>
   std_abs t = Some (word_of_int \<bar>sint t\<bar>)"
  by (simp add: std_abs_def abs_if)

lemma std_abs_None:
  "sint (t :: 'a::len word) = - (2 ^ (LENGTH('a) - 1)) \<Longrightarrow> std_abs t = None"
  by (simp add: std_abs_def)

lemma std_abs_int_Some:
  "sint (t :: 32 word) \<noteq> - (2 ^ 31) \<Longrightarrow> std_abs t = Some (word_of_int \<bar>sint t\<bar>)"
  using std_abs_Some [of t] by simp

lemma std_abs_long_long_Some:
  "sint (t :: 64 word) \<noteq> - (2 ^ 63) \<Longrightarrow> std_abs t = Some (word_of_int \<bar>sint t\<bar>)"
  using std_abs_Some [of t] by simp

lemma sint_promote8: "sint (scast (t :: 8 word) :: 32 word) = sint t"
  by (simp add: sint_up_scast is_up)

lemma sint_promote16: "sint (scast (t :: 16 word) :: 32 word) = sint t"
  by (simp add: sint_up_scast is_up)

lemma promote8_not_min: "sint (scast (t :: 8 word) :: 32 word) \<noteq> - (2 ^ 31)"
  using sint_ge [of t] by (simp add: sint_promote8)

lemma promote16_not_min: "sint (scast (t :: 16 word) :: 32 word) \<noteq> - (2 ^ 31)"
  using sint_ge [of t] by (simp add: sint_promote16)

lemma ucast_long_long: "(ucast (word_of_int i :: 64 word) :: 32 word) = word_of_int i"
  by (simp add: ucast_down_wi is_down)

lemma ucast_size_t: "(ucast (of_nat n :: 64 word) :: 32 word) = of_nat n"
  by (rule bit_word_eqI) (simp add: bit_simps)

lemma static_cast_uint32_t_uval: "static_cast_uint32_t u = of_nat (uval u)"
  by (cases u) simp_all

lemma sint_plus_10:
  assumes "sint (t :: 32 word) + 10 < 2 ^ 31"
  shows "sint (t + 10) = sint t + 10"
proof -
  have "- (2 ^ 31) \<le> sint t + 10"
    using sint_ge [of t] by simp
  with assms have "signed_take_bit 31 (sint t + 10) = sint t + 10"
    by (simp add: signed_take_bit_int_eq_self)
  then show ?thesis
    by (simp add: sint_word_add)
qed

subsection \<open>The signed overload\<close>

lemma CheckSumCombine_signed_eq:
  "abs_representable t \<Longrightarrow>
   CheckSumCombine_signed sum0 t = Some ((sum0 + word_of_int \<bar>sval t\<bar>) mod CHECKSUM_MODULUS)"
proof (cases t)
  case (Int8 x)
  then show ?thesis
    using std_abs_int_Some [OF promote8_not_min [of x]] by (simp add: sint_promote8)
next
  case (Int16 x)
  then show ?thesis
    using std_abs_int_Some [OF promote16_not_min [of x]] by (simp add: sint_promote16)
next
  case (Int32 x)
  assume "abs_representable t"
  with Int32 show ?thesis by (simp add: std_abs_int_Some)
next
  case (Int64 x)
  assume "abs_representable t"
  with Int64 show ?thesis by (simp add: std_abs_long_long_Some ucast_long_long)
qed

lemma CheckSumCombine_signed_None:
  "\<not> abs_representable t \<Longrightarrow> CheckSumCombine_signed sum0 t = None"
  by (cases t) (simp_all add: std_abs_None)

lemma type_min_less_imp_representable: "type_min t < sval t \<Longrightarrow> abs_representable t"
  by (cases t) auto

lemma abs_type_min: "sval t = type_min t \<Longrightarrow> type_max t < \<bar>sval t\<bar>"
  by (cases t) auto

lemma enum_offset_representable:
  assumes "sint (t :: 32 word) + 10 < 2 ^ 31"
  shows "abs_representable (Int32 (t + 10))"
proof -
  have "sint (t + 10) = sint t + 10"
    using assms by (rule sint_plus_10)
  moreover have "- (2 ^ 31) \<le> sint t"
    using sint_ge [of t] by simp
  ultimately show ?thesis by simp
qed

lemma CheckSumCombine_enum_eq:
  assumes "sint (t :: 32 word) + 10 < 2 ^ 31"
  shows "CheckSumCombine sum0 (Enum t) =
         Some ((sum0 + word_of_int \<bar>sint t + 10\<bar>) mod CHECKSUM_MODULUS)"
proof -
  have "CheckSumCombine_signed sum0 (Int32 (t + 10)) =
      Some ((sum0 + word_of_int \<bar>sval (Int32 (t + 10))\<bar>) mod CHECKSUM_MODULUS)"
    using enum_offset_representable [OF assms] by (rule CheckSumCombine_signed_eq)
  with assms sint_plus_10 [OF assms] show ?thesis
    by (simp del: CheckSumCombine_signed.simps)
qed

subsection \<open>The accumulator stays below the modulus\<close>

lemma CheckSumCombine_invariant:
  "sum0 < CHECKSUM_MODULUS \<longrightarrow> no_overflow v \<longrightarrow> extern_reduced v \<longrightarrow>
     (\<exists>s. CheckSumCombine sum0 v = Some s \<and> s < CHECKSUM_MODULUS)"
  "sum0 < CHECKSUM_MODULUS \<longrightarrow> list_all no_overflow c \<longrightarrow> list_all extern_reduced c \<longrightarrow>
     (\<exists>s. CheckSumCombine_range sum0 c = Some s \<and> s < CHECKSUM_MODULUS)"
proof (induction sum0 v and sum0 c rule: CheckSumCombine_CheckSumCombine_range.induct)
  case (1 sum0 t)
  then show ?case
    by (simp add: CheckSumCombine_signed_eq mod_CHECKSUM_MODULUS_less)
next
  case (2 sum0 t)
  then show ?case
    by (simp add: CheckSumCombine_unsigned_def mod_CHECKSUM_MODULUS_less)
next
  case (3 sum0 c)
  then show ?case by (simp add: mod_CHECKSUM_MODULUS_less)
next
  case (4 sum0 t)
  show ?case
  proof (intro impI)
    assume "no_overflow (Enum t)"
    then have "sint t + 10 < 2 ^ 31" by simp
    then have "CheckSumCombine sum0 (Enum t) =
        Some ((sum0 + word_of_int \<bar>sint t + 10\<bar>) mod CHECKSUM_MODULUS)"
      by (rule CheckSumCombine_enum_eq)
    then show "\<exists>s. CheckSumCombine sum0 (Enum t) = Some s \<and> s < CHECKSUM_MODULUS"
      by (simp add: mod_CHECKSUM_MODULUS_less del: CheckSumCombine.simps)
  qed
next
  case (11 sum0 first second)
  then show ?case by fastforce
next
  case (12 sum0 c)
  then show ?case by (fastforce simp: mod_CHECKSUM_MODULUS_less)
next
  case (15 sum0 t ts)
  then show ?case by fastforce
qed simp_all

text \<open>
  The call has a defined result exactly on the arguments without overflow, whatever the
  accumulator is.
\<close>

lemma CheckSumCombine_defined_iff:
  "(\<exists>s. CheckSumCombine sum0 v = Some s) = no_overflow v"
  "(\<exists>s. CheckSumCombine_range sum0 c = Some s) = list_all no_overflow c"
proof (induction sum0 v and sum0 c rule: CheckSumCombine_CheckSumCombine_range.induct)
  case (1 sum0 t)
  then show ?case
    by (cases "abs_representable t")
      (simp_all add: CheckSumCombine_signed_eq CheckSumCombine_signed_None del: CheckSumCombine_signed.simps)
next
  case (4 sum0 t)
  show ?case
  proof (cases "sint t + 10 < 2 ^ 31")
    case True
    then show ?thesis
      using CheckSumCombine_enum_eq [OF True, of sum0] by (simp del: CheckSumCombine.simps)
  next
    case False
    then show ?thesis by simp
  qed
next
  case (11 sum0 first second)
  then show ?case by (cases "CheckSumCombine sum0 first") auto
next
  case (12 sum0 c)
  then show ?case by (cases "CheckSumCombine_range sum0 c") auto
next
  case (15 sum0 t ts)
  then show ?case by (cases "CheckSumCombine sum0 t") auto
qed simp_all

text \<open>
  C1. From an accumulator below 10,000,000, combining a value of any category of the
  header (signed or unsigned integer, enumerator, composite with \<^verbatim>\<open>GetCheckSum\<close>,
  pointer, pair, container, nested in any way) returns, and leaves the accumulator below
  10,000,000 again. The value holds no signed integer on which \<^verbatim>\<open>std::abs\<close>
  overflows, and the overloads defined outside the header, where the value reaches them,
  keep the accumulator below the modulus as well.
\<close>

theorem CheckSumCombine_below_modulus:
  "unat sum0 < 10000000 \<Longrightarrow> no_overflow v \<Longrightarrow> extern_reduced v \<Longrightarrow>
   \<exists>s. CheckSumCombine sum0 v = Some s \<and> unat s < 10000000"
proof -
  assume "unat sum0 < 10000000" and "no_overflow v" and "extern_reduced v"
  moreover have "unat CHECKSUM_MODULUS = 10000000"
    by (simp add: CHECKSUM_MODULUS_def)
  ultimately show ?thesis
    using CheckSumCombine_invariant(1) [of sum0 v] by (simp add: word_less_nat_alt)
qed

theorem CheckSumCombine_below_modulus_witness:
  "unat (9999999 :: uint32_t) < 10000000 \<and>
   no_overflow (Container [Signed (Int32 (- 5)),
      StdPair (Enum 3) (UniquePtr (Some (Composite 4294967295))),
      RawPtr None, Extern (\<lambda>sum0. (sum0 + 7) mod CHECKSUM_MODULUS), Unsigned (UInt64 18446744073709551615)]) \<and>
   extern_reduced (Container [Signed (Int32 (- 5)),
      StdPair (Enum 3) (UniquePtr (Some (Composite 4294967295))),
      RawPtr None, Extern (\<lambda>sum0. (sum0 + 7) mod CHECKSUM_MODULUS), Unsigned (UInt64 18446744073709551615)]) \<and>
   (\<exists>s. CheckSumCombine 9999999 (Container [Signed (Int32 (- 5)),
      StdPair (Enum 3) (UniquePtr (Some (Composite 4294967295))),
      RawPtr None, Extern (\<lambda>sum0. (sum0 + 7) mod CHECKSUM_MODULUS), Unsigned (UInt64 18446744073709551615)]) = Some s \<and> unat s < 10000000)"
  using CheckSumCombine_below_modulus [of 9999999 "Container [Signed (Int32 (- 5)),
      StdPair (Enum 3) (UniquePtr (Some (Composite 4294967295))),
      RawPtr None, Extern (\<lambda>sum0. (sum0 + 7) mod CHECKSUM_MODULUS), Unsigned (UInt64 18446744073709551615)]"]
  by (simp add: mod_CHECKSUM_MODULUS_less)

subsection \<open>The container overload\<close>

lemma fold_bind_None:
  "fold (\<lambda>t acc. Option.bind acc (\<lambda>s. f s t)) c None = None"
  by (induction c) simp_all

lemma CheckSumCombine_range_fold:
  "CheckSumCombine_range sum0 c =
   fold (\<lambda>t acc. Option.bind acc (\<lambda>s. CheckSumCombine s t)) c (Some sum0)"
  by (induction c arbitrary: sum0) (simp_all add: fold_bind_None split: option.split)

lemma wrap_around_range:
  "CheckSumCombine_range 0 [Unsigned (UInt32 4294967295), Unsigned (UInt32 1)] = Some 4967296"
  "CheckSumCombine_range 0 [Unsigned (UInt32 1), Unsigned (UInt32 4294967295)] = Some 0"
  by (simp_all add: CheckSumCombine_unsigned_def CHECKSUM_MODULUS_def)

text \<open>
  C2. Combining a container is the left-to-right fold of the combinator over its elements
  in iteration order, starting from the accumulator, followed by adding the number of
  elements and one reduction modulo the modulus. The elements are not reordered: the two
  orders of the elements 4294967295 and 1 give different sums.
\<close>

theorem CheckSumCombine_container_fold:
  "CheckSumCombine sum0 (Container c) =
     Option.bind (fold (\<lambda>t acc. Option.bind acc (\<lambda>s. CheckSumCombine s t)) c (Some sum0))
       (\<lambda>s. Some ((s + of_nat (length c)) mod CHECKSUM_MODULUS))
   \<and> CheckSumCombine 0 (Container [Unsigned (UInt32 4294967295), Unsigned (UInt32 1)])
       \<noteq> CheckSumCombine 0 (Container [Unsigned (UInt32 1), Unsigned (UInt32 4294967295)])"
proof
  show "CheckSumCombine sum0 (Container c) =
     Option.bind (fold (\<lambda>t acc. Option.bind acc (\<lambda>s. CheckSumCombine s t)) c (Some sum0))
       (\<lambda>s. Some ((s + of_nat (length c)) mod CHECKSUM_MODULUS))"
    by (simp add: CheckSumCombine_range_fold [symmetric] split: option.split)
  show "CheckSumCombine 0 (Container [Unsigned (UInt32 4294967295), Unsigned (UInt32 1)])
       \<noteq> CheckSumCombine 0 (Container [Unsigned (UInt32 1), Unsigned (UInt32 4294967295)])"
    by (simp add: wrap_around_range CHECKSUM_MODULUS_def del: CheckSumCombine_range.simps)
qed

subsection \<open>The unsigned overload\<close>

text \<open>
  C3, as claimed, fails for a 64-bit argument: \<open>2 ^ 32\<close> is cast to 0, while
  \<open>2 ^ 32 mod 10000000 = 4967296\<close>.
\<close>

theorem CheckSumCombine_unsigned_wide_counterexample:
  "CheckSumCombine 0 (Unsigned (UInt64 4294967296)) = Some 0 \<and>
   uval (UInt64 4294967296) mod 10000000 = 4967296 \<and>
   CheckSumCombine 0 (Unsigned (UInt64 4294967296))
     \<noteq> Some (of_nat (uval (UInt64 4294967296) mod 10000000))"
  by (simp add: CheckSumCombine_unsigned_def CHECKSUM_MODULUS_def)

text \<open>
  C3, amended. From accumulator 0, combining an unsigned integer \<open>u\<close> of any width
  yields \<open>(u mod 2 ^ 32) mod 10000000\<close>: the argument is cast to \<^verbatim>\<open>uint32_t\<close> first.
  For every \<open>u\<close> below \<open>2 ^ 32\<close>, so for every argument of a type of at most 32 bits,
  this is \<open>u mod 10000000\<close>.
\<close>

theorem CheckSumCombine_unsigned_from_zero:
  "(\<exists>s. CheckSumCombine 0 (Unsigned u) = Some s \<and> unat s = (uval u mod 2 ^ 32) mod 10000000) \<and>
   (uval u < 2 ^ 32 \<longrightarrow>
     (\<exists>s. CheckSumCombine 0 (Unsigned u) = Some s \<and> unat s = uval u mod 10000000))"
  by (simp add: CheckSumCombine_unsigned_def static_cast_uint32_t_uval unat_mod_CHECKSUM_MODULUS
      unat_of_nat)

theorem CheckSumCombine_unsigned_from_zero_witness:
  "uval (UInt32 4294967295) < 2 ^ 32 \<and>
   (\<exists>s. CheckSumCombine 0 (Unsigned (UInt32 4294967295)) = Some s \<and>
        unat s = uval (UInt32 4294967295) mod 10000000)"
  using CheckSumCombine_unsigned_from_zero [of "UInt32 4294967295"] by simp

subsection \<open>Sign, enumerators, pointers and pairs\<close>

text \<open>
  Two opposite values of one signed type (the types differ in their least value) are both
  above the least value of the type.
\<close>

lemma opposite_in_type_representable:
  assumes "sval b = - sval a" and "type_min b = type_min a"
  shows "abs_representable a \<and> abs_representable b"
proof -
  have lt32: "sint (x :: 32 word) < 2 ^ 31" for x
    using sint_lt [of x] by simp
  have lt64: "sint (x :: 64 word) < 2 ^ 63" for x
    using sint_lt [of x] by simp
  show ?thesis
  proof (cases a)
    case (Int32 x)
    with assms obtain y where "b = Int32 y" by (cases b) simp_all
    with Int32 assms(1) lt32 [of x] lt32 [of y] show ?thesis by auto
  next
    case (Int64 x)
    with assms obtain y where "b = Int64 y" by (cases b) simp_all
    with Int64 assms(1) lt64 [of x] lt64 [of y] show ?thesis by auto
  next
    case (Int8 x)
    with assms show ?thesis by (cases b) simp_all
  next
    case (Int16 x)
    with assms show ?thesis by (cases b) simp_all
  qed
qed

text \<open>
  C4. Two signed integers of opposite value, \<open>s\<close> and \<open>- s\<close>, on both of which
  \<^verbatim>\<open>std::abs\<close> has a result, give the same accumulator from the same start; the
  contribution is the absolute value, cast to \<^verbatim>\<open>uint32_t\<close>. Two values of one type
  that are opposite always have such a result: the least value of a type has no opposite
  in it.
\<close>

theorem CheckSumCombine_sign_discarded:
  "sval b = - sval a \<Longrightarrow> abs_representable a \<Longrightarrow> abs_representable b \<Longrightarrow>
   CheckSumCombine sum0 (Signed a) = CheckSumCombine sum0 (Signed b) \<and>
   CheckSumCombine sum0 (Signed a) = Some ((sum0 + word_of_int \<bar>sval a\<bar>) mod CHECKSUM_MODULUS)"
  by (simp add: CheckSumCombine_signed_eq)

theorem CheckSumCombine_sign_discarded_witness:
  "sval (Int32 (- 12345678)) = - sval (Int32 12345678) \<and>
   abs_representable (Int32 12345678) \<and> abs_representable (Int32 (- 12345678)) \<and>
   CheckSumCombine 0 (Signed (Int32 12345678)) = CheckSumCombine 0 (Signed (Int32 (- 12345678))) \<and>
   CheckSumCombine 0 (Signed (Int32 12345678)) = Some 2345678"
  using CheckSumCombine_sign_discarded [of "Int32 (- 12345678)" "Int32 12345678" 0]
  by (simp add: CHECKSUM_MODULUS_def std_abs_def)

text \<open>
  C5. Combining an enumerator whose ordinal plus 10 is an \<^verbatim>\<open>int\<close> is combining the
  \<^verbatim>\<open>int\<close> ordinal + 10 through the signed overload, from every accumulator; the
  contribution is \<open>|ordinal + 10|\<close>.
\<close>

theorem CheckSumCombine_enum_offset:
  "sint t + 10 < 2 ^ 31 \<Longrightarrow>
   CheckSumCombine sum0 (Enum t) = CheckSumCombine sum0 (Signed (Int32 (t + 10))) \<and>
   CheckSumCombine sum0 (Enum t) = Some ((sum0 + word_of_int \<bar>sint t + 10\<bar>) mod CHECKSUM_MODULUS)"
  using CheckSumCombine_enum_eq [of t sum0] by simp

theorem CheckSumCombine_enum_offset_witness:
  "sint (- 1 :: 32 word) + 10 < 2 ^ 31 \<and>
   CheckSumCombine 5 (Enum (- 1)) = CheckSumCombine 5 (Signed (Int32 (- 1 + 10))) \<and>
   CheckSumCombine 5 (Enum (- 1)) = Some 14"
  using CheckSumCombine_enum_offset [of "- 1" 5] by (simp add: CHECKSUM_MODULUS_def std_abs_def)

text \<open>
  C6. A null raw, shared or unique pointer leaves every accumulator as it is, and the call
  returns; a pointer to a value is combined as that value.
\<close>

theorem CheckSumCombine_pointer:
  "CheckSumCombine sum0 (RawPtr None) = Some sum0 \<and>
   CheckSumCombine sum0 (SharedPtr None) = Some sum0 \<and>
   CheckSumCombine sum0 (UniquePtr None) = Some sum0 \<and>
   CheckSumCombine sum0 (RawPtr (Some v)) = CheckSumCombine sum0 v \<and>
   CheckSumCombine sum0 (SharedPtr (Some v)) = CheckSumCombine sum0 v \<and>
   CheckSumCombine sum0 (UniquePtr (Some v)) = CheckSumCombine sum0 v"
  by simp

text \<open>
  C7. Combining a pair combines its first component and then its second into the result
  of the first. The order matters: the pair (4294967295, 1) and the pair (1, 4294967295)
  give different sums from accumulator 0.
\<close>

theorem CheckSumCombine_pair_in_order:
  "CheckSumCombine sum0 (StdPair k v) =
     Option.bind (CheckSumCombine sum0 k) (\<lambda>sum1. CheckSumCombine sum1 v) \<and>
   CheckSumCombine 0 (StdPair (Unsigned (UInt32 4294967295)) (Unsigned (UInt32 1)))
     \<noteq> CheckSumCombine 0 (StdPair (Unsigned (UInt32 1)) (Unsigned (UInt32 4294967295)))"
  by (simp add: CheckSumCombine_unsigned_def CHECKSUM_MODULUS_def split: option.split)

text \<open>
  C10. For a signed integer above the least value of its type the signed step has a
  defined result: it adds the absolute value, cast to \<^verbatim>\<open>uint32_t\<close>, and reduces.
  The absolute value of the least value of a type exceeds the greatest value of the type;
  where \<^verbatim>\<open>std::abs\<close> receives it unpromoted (\<^verbatim>\<open>int\<close>, \<^verbatim>\<open>long long\<close>) the
  step has no defined result.
\<close>

theorem CheckSumCombine_signed_above_min:
  "(type_min t < sval t \<longrightarrow>
      CheckSumCombine sum0 (Signed t) = Some ((sum0 + word_of_int \<bar>sval t\<bar>) mod CHECKSUM_MODULUS)) \<and>
   (sval t = type_min t \<longrightarrow> type_max t < \<bar>sval t\<bar>) \<and>
   (sval t = type_min t \<and> \<not> abs_representable t \<longrightarrow> CheckSumCombine sum0 (Signed t) = None)"
proof (intro conjI impI)
  assume "type_min t < sval t"
  then have "abs_representable t"
    by (rule type_min_less_imp_representable)
  then show "CheckSumCombine sum0 (Signed t) =
      Some ((sum0 + word_of_int \<bar>sval t\<bar>) mod CHECKSUM_MODULUS)"
    by (simp add: CheckSumCombine_signed_eq)
next
  assume "sval t = type_min t"
  then show "type_max t < \<bar>sval t\<bar>"
    by (rule abs_type_min)
next
  assume "sval t = type_min t \<and> \<not> abs_representable t"
  then show "CheckSumCombine sum0 (Signed t) = None"
    by (simp add: CheckSumCombine_signed_None)
qed

theorem CheckSumCombine_signed_above_min_witness:
  "type_min (Int64 (- 4294967297)) < sval (Int64 (- 4294967297)) \<and>
   CheckSumCombine 9999999 (Signed (Int64 (- 4294967297))) = Some 0 \<and>
   sval (Int32 (- 2147483648)) = type_min (Int32 (- 2147483648)) \<and>
   type_max (Int32 (- 2147483648)) < \<bar>sval (Int32 (- 2147483648))\<bar> \<and>
   \<not> abs_representable (Int32 (- 2147483648)) \<and>
   CheckSumCombine 9999999 (Signed (Int32 (- 2147483648))) = None"
  using CheckSumCombine_signed_above_min [of "Int64 (- 4294967297)" 9999999]
    CheckSumCombine_signed_above_min [of "Int32 (- 2147483648)" 9999999]
  by (simp add: CHECKSUM_MODULUS_def)

section \<open>Properties of the hull registry\<close>

lemma combine_entries_range:
  "combine_entries str retval es = CheckSumCombine_range retval (map (entry_val str) es)"
  by (induction es arbitrary: retval) (simp_all split: option.split)

lemma combine_entries_defined: "\<exists>r. combine_entries str retval es = Some r"
proof (induction es arbitrary: retval)
  case Nil
  show ?case by simp
next
  case (Cons e es)
  obtain r where "CheckSumCombine retval (entry_val str e) = Some r"
    by (cases "snd e") (simp_all add: entry_val_def)
  with Cons show ?case by simp
qed

lemma combine_size_t:
  "CheckSumCombine retval (Unsigned (UInt64 (of_nat n))) =
   Some ((retval + of_nat n) mod CHECKSUM_MODULUS)"
  by (simp add: CheckSumCombine_unsigned_def ucast_size_t)

lemma fst_GetCheckSum:
  "fst (GetCheckSum str m) =
   CheckSumCombine 0 (Container (map (entry_val str) (m_hulls (CheckPendingShipHulls m))))"
  by (simp add: GetCheckSum_def Let_def combine_entries_range combine_size_t split: option.split
      del: CheckSumCombine.simps(2))

lemma CheckPendingShipHulls_SetShipHulls:
  "CheckPendingShipHulls (SetShipHulls p m) = m\<lparr>m_pending_ship_hulls := None, m_hulls := p\<rparr>"
  by (simp add: CheckPendingShipHulls_def SetShipHulls_def)

lemma CheckPendingShipHulls_resolved:
  "m_pending_ship_hulls m = None \<Longrightarrow> CheckPendingShipHulls m = m"
  by (simp add: CheckPendingShipHulls_def)

text \<open>
  C8. \<^verbatim>\<open>GetCheckSum\<close> resolves the pending content and returns what the container
  overload gives, from accumulator 0, for the stored entries in iteration order: every
  (name, hull) entry folded through the combinator, then the entry count. It always
  returns a value, leaves the manager resolved, and two managers with the same stored
  content give the same value.
\<close>

theorem GetCheckSum_mirrors_container:
  "fst (GetCheckSum str m) =
     CheckSumCombine 0 (Container (map (entry_val str) (m_hulls (CheckPendingShipHulls m)))) \<and>
   (\<exists>r. fst (GetCheckSum str m) = Some r) \<and>
   snd (GetCheckSum str m) = CheckPendingShipHulls m \<and>
   (m_hulls (CheckPendingShipHulls m) = m_hulls (CheckPendingShipHulls m') \<longrightarrow>
      fst (GetCheckSum str m) = fst (GetCheckSum str m'))"
proof (intro conjI impI)
  show "fst (GetCheckSum str m) =
     CheckSumCombine 0 (Container (map (entry_val str) (m_hulls (CheckPendingShipHulls m))))"
    by (rule fst_GetCheckSum)
  obtain r where "combine_entries str 0 (m_hulls (CheckPendingShipHulls m)) = Some r"
    using combine_entries_defined by blast
  then show "\<exists>r. fst (GetCheckSum str m) = Some r"
    by (simp add: GetCheckSum_def Let_def)
  show "snd (GetCheckSum str m) = CheckPendingShipHulls m"
    by (simp add: GetCheckSum_def Let_def)
  assume "m_hulls (CheckPendingShipHulls m) = m_hulls (CheckPendingShipHulls m')"
  then show "fst (GetCheckSum str m) = fst (GetCheckSum str m')"
    by (simp only: fst_GetCheckSum)
qed

theorem GetCheckSum_mirrors_container_witness:
  "m_hulls (CheckPendingShipHulls
      \<lparr>m_pending_ship_hulls = Some [(''SH_BASIC'', Some \<lparr>m_name = ''SH_BASIC'', hull_checksum = 123\<rparr>),
                                     (''SH_HEAVY'', Some \<lparr>m_name = ''SH_HEAVY'', hull_checksum = 9999990\<rparr>)],
       m_hulls = []\<rparr>)
   = m_hulls (CheckPendingShipHulls
      \<lparr>m_pending_ship_hulls = None,
       m_hulls = [(''SH_BASIC'', Some \<lparr>m_name = ''SH_BASIC'', hull_checksum = 123\<rparr>),
                  (''SH_HEAVY'', Some \<lparr>m_name = ''SH_HEAVY'', hull_checksum = 9999990\<rparr>)]\<rparr>) \<and>
   fst (GetCheckSum (\<lambda>sum0 s. (sum0 + of_nat (length s)) mod CHECKSUM_MODULUS)
      \<lparr>m_pending_ship_hulls = Some [(''SH_BASIC'', Some \<lparr>m_name = ''SH_BASIC'', hull_checksum = 123\<rparr>),
                                     (''SH_HEAVY'', Some \<lparr>m_name = ''SH_HEAVY'', hull_checksum = 9999990\<rparr>)],
       m_hulls = []\<rparr>)
   = fst (GetCheckSum (\<lambda>sum0 s. (sum0 + of_nat (length s)) mod CHECKSUM_MODULUS)
      \<lparr>m_pending_ship_hulls = None,
       m_hulls = [(''SH_BASIC'', Some \<lparr>m_name = ''SH_BASIC'', hull_checksum = 123\<rparr>),
                  (''SH_HEAVY'', Some \<lparr>m_name = ''SH_HEAVY'', hull_checksum = 9999990\<rparr>)]\<rparr>) \<and>
   fst (GetCheckSum (\<lambda>sum0 s. (sum0 + of_nat (length s)) mod CHECKSUM_MODULUS)
      \<lparr>m_pending_ship_hulls = Some [(''SH_BASIC'', Some \<lparr>m_name = ''SH_BASIC'', hull_checksum = 123\<rparr>),
                                     (''SH_HEAVY'', Some \<lparr>m_name = ''SH_HEAVY'', hull_checksum = 9999990\<rparr>)],
       m_hulls = []\<rparr>) = Some 131"
  using GetCheckSum_mirrors_container
    [of "\<lambda>sum0 s. (sum0 + of_nat (length s)) mod CHECKSUM_MODULUS"
      "\<lparr>m_pending_ship_hulls = Some [(''SH_BASIC'', Some \<lparr>m_name = ''SH_BASIC'', hull_checksum = 123\<rparr>),
                                     (''SH_HEAVY'', Some \<lparr>m_name = ''SH_HEAVY'', hull_checksum = 9999990\<rparr>)],
       m_hulls = []\<rparr>"
      "\<lparr>m_pending_ship_hulls = None,
       m_hulls = [(''SH_BASIC'', Some \<lparr>m_name = ''SH_BASIC'', hull_checksum = 123\<rparr>),
                  (''SH_HEAVY'', Some \<lparr>m_name = ''SH_HEAVY'', hull_checksum = 9999990\<rparr>)]\<rparr>"]
  by (simp add: GetCheckSum_def CheckPendingShipHulls_def entry_val_def
      CheckSumCombine_unsigned_def CHECKSUM_MODULUS_def)

text \<open>
  C9. After \<^verbatim>\<open>SetShipHulls\<close> attached a pending collection, the first query, whichever
  it is, leaves the manager with the collection as its hulls and without pending marker.
  On that manager resolving again changes nothing, and every query leaves the manager as
  it is and gives the answer the first query of its kind gave.
\<close>

theorem queries_resolve_once:
  "(let r = m\<lparr>m_pending_ship_hulls := None, m_hulls := p\<rparr> in
     CheckPendingShipHulls (SetShipHulls p m) = r \<and>
     snd (GetShipHull name (SetShipHulls p m)) = r \<and>
     snd (begin_hulls (SetShipHulls p m)) = r \<and>
     snd (end_hulls (SetShipHulls p m)) = r \<and>
     snd (size_hulls (SetShipHulls p m)) = r \<and>
     snd (GetCheckSum str (SetShipHulls p m)) = r \<and>
     CheckPendingShipHulls r = r \<and>
     GetShipHull name r = (fst (GetShipHull name (SetShipHulls p m)), r) \<and>
     begin_hulls r = (p, r) \<and> fst (begin_hulls (SetShipHulls p m)) = p \<and>
     end_hulls r = ([], r) \<and> fst (end_hulls (SetShipHulls p m)) = [] \<and>
     size_hulls r = (length p, r) \<and> fst (size_hulls (SetShipHulls p m)) = length p \<and>
     GetCheckSum str r = (fst (GetCheckSum str (SetShipHulls p m)), r))"
  by (simp add: Let_def GetShipHull_def begin_hulls_def end_hulls_def size_hulls_def
      GetCheckSum_def CheckPendingShipHulls_SetShipHulls CheckPendingShipHulls_resolved
      cong: option.case_cong)

end
